theory Spec2Isabelle
  imports Complex_Main
begin

section \<open>Python primitives used by the gateway\<close>

text \<open>
  Text is a list of bytes (\<open>string\<close>); every pattern the program searches for is ASCII.

  \<^verbatim>\<open>s.replace(old, new)\<close> replaces the non-overlapping occurrences of \<open>old\<close> from left to
  right. With an empty \<open>old\<close> Python puts \<open>new\<close> before every character and at the end.
\<close>

fun str_replace :: "string \<Rightarrow> string \<Rightarrow> string \<Rightarrow> string" where
  "str_replace [] new s = new @ concat (map (\<lambda>c. c # new) s)"
| "str_replace (a # old) new [] = []"
| "str_replace (a # old) new (c # cs) =
     (if take (Suc (length old)) (c # cs) = a # old
      then new @ str_replace (a # old) new (drop (length old) cs)
      else c # str_replace (a # old) new cs)"

text \<open>\<^verbatim>\<open>s.strip(chars)\<close>: drop the leading and the trailing characters that are in \<open>chars\<close>.\<close>

definition strip :: "string \<Rightarrow> string \<Rightarrow> string" where
  "strip chars s =
     rev (dropWhile (\<lambda>c. c \<in> set chars) (rev (dropWhile (\<lambda>c. c \<in> set chars) s)))"

text \<open>\<^verbatim>\<open>s.startswith(p)\<close>.\<close>

definition startswith :: "string \<Rightarrow> string \<Rightarrow> bool" where
  "startswith s p = (take (length p) s = p)"

text \<open>\<^verbatim>\<open>s.upper()\<close> on ASCII text: the letters a to z move to A to Z.\<close>

definition upper_char :: "char \<Rightarrow> char" where
  "upper_char c =
     (let n = (of_char c :: nat) in if 97 \<le> n \<and> n \<le> 122 then char_of (n - 32) else c)"

definition upper :: "string \<Rightarrow> string" where
  "upper s = map upper_char s"

text \<open>
  A Python \<open>dict\<close> is an association list in insertion order whose keys are pairwise
  different. \<^verbatim>\<open>d[k] = v\<close> overwrites the value of a key that is present, in place, and
  appends a new key at the end.
\<close>

fun dict_set :: "('k \<times> 'v) list \<Rightarrow> 'k \<Rightarrow> 'v \<Rightarrow> ('k \<times> 'v) list" where
  "dict_set [] k v = [(k, v)]"
| "dict_set ((k', v') # d) k v =
     (if k' = k then (k, v) # d else (k', v') # dict_set d k v)"

text \<open>
  \<^verbatim>\<open>dict(m)\<close> of a multi-valued mapping (Starlette's \<open>QueryParams\<close>, httpx's \<open>Headers\<close>):
  the mapping is read through \<open>keys()\<close> and \<open>m[k]\<close>, which for \<open>QueryParams\<close> come from
  \<^verbatim>\<open>{k: v for k, v in items}\<close>, that is one assignment per item, in order.
\<close>

definition dict_of_items :: "('k \<times> 'v) list \<Rightarrow> ('k \<times> 'v) list" where
  "dict_of_items items = foldl (\<lambda>d (k, v). dict_set d k v) [] items"

section \<open>JSON values\<close>

text \<open>
  The values \<^verbatim>\<open>json.loads\<close> produces. A number without fraction or exponent is a Python
  \<open>int\<close>, any other number a \<open>float\<close>; \<open>NaN\<close> and \<open>Infinity\<close> are accepted too.
\<close>

datatype pyfloat = Finite real | PosInf | NegInf | NaN

datatype json =
    JNull
  | JBool bool
  | JInt int
  | JFloat pyfloat
  | JStr string
  | JArr "json list"
  | JObj "(string \<times> json) list"

text \<open>Python truthiness (\<^verbatim>\<open>if v\<close>) of a decoded value.\<close>

fun truthy :: "json \<Rightarrow> bool" where
  "truthy JNull = False"
| "truthy (JBool b) = b"
| "truthy (JInt i) = (i \<noteq> 0)"
| "truthy (JFloat (Finite r)) = (r \<noteq> 0)"
| "truthy (JFloat f) = True"
| "truthy (JStr s) = (s \<noteq> [])"
| "truthy (JArr xs) = (xs \<noteq> [])"
| "truthy (JObj kvs) = (kvs \<noteq> [])"

section \<open>Interface description\<close>

text \<open>
  \<^verbatim>\<open>openapi_schema["paths"]\<close> maps a path template to a path item, which maps a lower-case
  method name to an operation. Of an operation the builder reads \<open>operationId\<close> only.
\<close>

record operation =
  operationId :: "string option"
  tags :: "string list"

type_synonym path_item = "(string \<times> operation) list"

record info =
  title :: string
  version :: string

record openapi_schema =
  schema_info :: info
  paths :: "(string \<times> path_item) list"

section \<open>Route table builder: \<open>create_proxy_routes\<close>\<close>

text \<open>
  A registered route: the HTTP method it is registered under, its path (the remote's
  template, unchanged), its \<open>operation_id\<close>, and what its handler closes over
  (\<open>method.upper()\<close>, the path template and the target URL).
\<close>

record route =
  route_method :: string
  route_path :: string
  operation_id :: string
  handler_method :: string
  handler_path_template :: string
  handler_target_url :: string

text \<open>
  \<^verbatim>\<open>
  operation_id = operation.get("operationId")
  if not operation_id:
      operation_id = f"{method}_{path.replace('/', '_').replace('{', '').replace('}', '').strip('_')}"
  \<close>
\<close>

definition derive_operation_id :: "string \<Rightarrow> string \<Rightarrow> string" where
  "derive_operation_id method path =
     method @ ''_'' @
     strip ''_'' (str_replace ''}'' '''' (str_replace ''{'' '''' (str_replace ''/'' ''_'' path)))"

definition choose_operation_id :: "string \<Rightarrow> string \<Rightarrow> operation \<Rightarrow> string" where
  "choose_operation_id method path operation =
     (case operationId operation of
        None \<Rightarrow> derive_operation_id method path
      | Some declared \<Rightarrow>
          if declared = [] then derive_operation_id method path else declared)"

definition http_methods :: "string list" where
  "http_methods = [''get'', ''post'', ''put'', ''delete'', ''patch'']"

definition make_route :: "string \<Rightarrow> string \<Rightarrow> string \<Rightarrow> operation \<Rightarrow> route" where
  "make_route target_url path method operation =
     \<lparr> route_method = upper method,
       route_path = path,
       operation_id = choose_operation_id method path operation,
       handler_method = upper method,
       handler_path_template = path,
       handler_target_url = target_url \<rparr>"

text \<open>
  The inner loop \<^verbatim>\<open>for method in ["get", "post", "put", "delete", "patch"]\<close> over one
  path item; the state is the application's route list and \<open>route_count\<close>.
\<close>

fun method_loop ::
  "string \<Rightarrow> string \<Rightarrow> path_item \<Rightarrow> string list \<Rightarrow> route list \<times> nat \<Rightarrow> route list \<times> nat"
where
  "method_loop target_url path path_item [] st = st"
| "method_loop target_url path path_item (method # ms) (app, route_count) =
     (case map_of path_item method of
        None \<Rightarrow> method_loop target_url path path_item ms (app, route_count)
      | Some operation \<Rightarrow>
          method_loop target_url path path_item ms
            (app @ [make_route target_url path method operation], route_count + 1))"

text \<open>The outer loop \<^verbatim>\<open>for path, path_item in paths.items()\<close>.\<close>

fun path_loop ::
  "string \<Rightarrow> (string \<times> path_item) list \<Rightarrow> route list \<times> nat \<Rightarrow> route list \<times> nat"
where
  "path_loop target_url [] st = st"
| "path_loop target_url ((path, path_item) # rest) st =
     path_loop target_url rest (method_loop target_url path path_item http_methods st)"

definition create_proxy_routes ::
  "route list \<Rightarrow> openapi_schema \<Rightarrow> string \<Rightarrow> route list \<times> nat"
where
  "create_proxy_routes app schema target_url = path_loop target_url (paths schema) (app, 0)"




text \<open>
  The identifier derivation in the spec's words: path separators become underscores,
  repeated separators collapse into a single one, placeholder braces are removed, and no
  underscore is left at either end.
\<close>

fun collapse_separators :: "string \<Rightarrow> string" where
  "collapse_separators [] = []"
| "collapse_separators [c] = [c]"
| "collapse_separators (c # d # cs) =
     (if c = CHR ''/'' \<and> d = CHR ''/'' then collapse_separators (d # cs)
      else c # collapse_separators (d # cs))"

definition spec_normalized_path :: "string \<Rightarrow> string" where
  "spec_normalized_path path =
     strip ''_'' (filter (\<lambda>c. c \<noteq> CHR ''{'' \<and> c \<noteq> CHR ''}'')
       (map (\<lambda>c. if c = CHR ''/'' then CHR ''_'' else c) (collapse_separators path)))"

definition spec_derive :: "string \<Rightarrow> string \<Rightarrow> string" where
  "spec_derive method path = method @ ''_'' @ spec_normalized_path path"

section \<open>Forwarding executor: the \<open>handler\<close> closure\<close>

text \<open>
  What the handler reads of the inbound \<open>Request\<close>: its method; its raw body (\<open>None\<close> when
  reading the stream raises); the items of \<open>request.query_params\<close> in the order of the
  query string, a name possibly repeated; the header items, names in lower case, where
  \<^verbatim>\<open>name in request.headers\<close> and \<^verbatim>\<open>request.headers[name]\<close> find the first item of that
  name; and \<open>request.path_params\<close>, a dict, each value already as \<^verbatim>\<open>str(param_value)\<close>.
\<close>

record request =
  rq_method :: string
  rq_body :: "string option"
  rq_query_params :: "(string \<times> string) list"
  rq_headers :: "(string \<times> string) list"
  rq_path_params :: "(string \<times> string) list"

text \<open>
  The \<open>body\<close> variable holds a decoded JSON value or the raw bytes; Python's \<open>None\<close> is
  the decoded \<open>null\<close>.
\<close>

datatype body = BJson json | BBytes string

fun body_truthy :: "body \<Rightarrow> bool" where
  "body_truthy (BJson v) = truthy v"
| "body_truthy (BBytes raw) = (raw \<noteq> [])"

fun is_dict :: "body \<Rightarrow> bool" where
  "is_dict (BJson (JObj kvs)) = True"
| "is_dict b = False"

text \<open>
  \<^verbatim>\<open>
  body = None
  if request.method in ["POST", "PUT", "PATCH"]:
      try:
          body = await request.json()
      except:
          try:
              body = await request.body()
          except:
              pass
  \<close>
  \<open>request.json()\<close> is \<open>json.loads\<close> of the raw body; \<open>loads\<close> returns \<open>None\<close> where it
  raises.
\<close>

definition read_body :: "(string \<Rightarrow> json option) \<Rightarrow> request \<Rightarrow> body" where
  "read_body loads request =
     (if rq_method request \<in> set [''POST'', ''PUT'', ''PATCH'']
      then (case rq_body request of
              None \<Rightarrow> BJson JNull
            | Some raw \<Rightarrow> (case loads raw of Some v \<Rightarrow> BJson v | None \<Rightarrow> BBytes raw))
      else BJson JNull)"

text \<open>
  \<^verbatim>\<open>
  headers = {}
  for header_name in ["authorization", "content-type"]:
      if header_name in request.headers:
          headers[header_name] = request.headers[header_name]
  \<close>
\<close>

definition relayed_header_names :: "string list" where
  "relayed_header_names = [''authorization'', ''content-type'']"

text \<open>
  The handler of \<open>mcp_proxy_server.py\<close> is the same but for this step, where it looks
  for \<open>authorization\<close> only.
\<close>

definition proxy_relayed_header_names :: "string list" where
  "proxy_relayed_header_names = [''authorization'']"

fun relay_headers ::
  "string list \<Rightarrow> (string \<times> string) list \<Rightarrow> (string \<times> string) list \<Rightarrow> (string \<times> string) list"
where
  "relay_headers [] inbound headers = headers"
| "relay_headers (header_name # names) inbound headers =
     (case map_of inbound header_name of
        None \<Rightarrow> relay_headers names inbound headers
      | Some v \<Rightarrow> relay_headers names inbound (dict_set headers header_name v))"

text \<open>
  \<^verbatim>\<open>
  target_path = path_template
  for param_name, param_value in path_params.items():
      target_path = target_path.replace(f"{{{param_name}}}", str(param_value))
  \<close>
\<close>

fun substitute_path :: "string \<Rightarrow> (string \<times> string) list \<Rightarrow> string" where
  "substitute_path target_path [] = target_path"
| "substitute_path target_path ((param_name, param_value) # rest) =
     substitute_path (str_replace (''{'' @ param_name @ ''}'') param_value target_path) rest"

text \<open>
  The arguments the handler passes to \<^verbatim>\<open>client.request(...)\<close>; \<open>None\<close> is Python's
  \<open>None\<close>. Whether the client can send the content argument is \<open>encode_content\<close> below.
\<close>

record outbound =
  out_method :: string
  out_url :: string
  out_params :: "(string \<times> string) list"
  out_headers :: "(string \<times> string) list"
  out_json :: "body option"
  out_content :: "body option"

definition forward_call ::
  "(string \<Rightarrow> json option) \<Rightarrow> string \<Rightarrow> string \<Rightarrow> string \<Rightarrow> request \<Rightarrow> outbound"
where
  "forward_call loads method path_template target_url request =
     (let body = read_body loads request;
          query_params = dict_of_items (rq_query_params request);
          headers = relay_headers relayed_header_names (rq_headers request) [];
          target_path = substitute_path path_template (rq_path_params request);
          full_target_url = target_url @ target_path
      in \<lparr> out_method = method,
           out_url = full_target_url,
           out_params = query_params,
           out_headers = headers,
           out_json = (if body_truthy body \<and> is_dict body then Some body else None),
           out_content = (if body_truthy body \<and> \<not> is_dict body then Some body else None) \<rparr>)"

text \<open>
  The remote's response as the program reads it: \<open>resp_headers\<close> are the header lines
  of the response in their order, names in lower case, a name possibly repeated;
  \<open>resp_decoded\<close> is the result of \<open>response.json()\<close>, \<open>None\<close> where it raises.
\<close>

record 'doc response =
  resp_status_code :: nat
  resp_headers :: "(string \<times> string) list"
  resp_text :: string
  resp_decoded :: "'doc option"

text \<open>
  What awaiting the client gives: \<open>httpx.RequestError\<close> (connection failures and
  timeouts), any other exception, or a response.
\<close>

datatype 'doc remote_result =
    RequestError string
  | OtherError string
  | Responded "'doc response"

text \<open>
  What \<^verbatim>\<open>client.request\<close> does with its \<open>content=\<close> argument before anything is sent:
  bytes are the payload, a \<open>str\<close> is encoded, a list is taken for a synchronous byte
  stream, which the asynchronous client refuses with \<open>RuntimeError\<close>, and any other value
  is a \<open>TypeError\<close>.
\<close>

fun encode_content :: "body \<Rightarrow> string + string" where
  "encode_content (BBytes raw) = Inr raw"
| "encode_content (BJson (JStr s)) = Inr s"
| "encode_content (BJson (JArr xs)) = Inl ''RuntimeError''"
| "encode_content (BJson v) = Inl ''TypeError''"

text \<open>
  \<^verbatim>\<open>await client.request(...)\<close>: the exception of the content argument if it has one,
  else what the remote does with the call.
\<close>

definition client_request ::
  "(outbound \<Rightarrow> json remote_result) \<Rightarrow> outbound \<Rightarrow> json remote_result"
where
  "client_request client call =
     (case out_content call of
        None \<Rightarrow> client call
      | Some content \<Rightarrow>
          (case encode_content content of
             Inl e \<Rightarrow> OtherError e
           | Inr payload \<Rightarrow> client call))"

record json_response =
  jr_content :: json
  jr_status_code :: nat
  jr_headers :: "(string \<times> string) list"

datatype handler_error = HTTPException nat string | Uncaught string

text \<open>
  The header mapping of httpx: \<^verbatim>\<open>headers[name]\<close> is the values of all lines of that name
  joined by a comma and a space, \<^verbatim>\<open>headers.get(name, default)\<close> the default when there
  is no such line, and \<^verbatim>\<open>dict(headers)\<close> has one item per name, in the order of the
  names' first lines.
\<close>

definition header_values :: "(string \<times> string) list \<Rightarrow> string \<Rightarrow> string list" where
  "header_values headers name = map snd (filter (\<lambda>kv. fst kv = name) headers)"

fun join :: "string \<Rightarrow> string list \<Rightarrow> string" where
  "join sep [] = []"
| "join sep [x] = x"
| "join sep (x # y # ys) = x @ sep @ join sep (y # ys)"

definition headers_get :: "(string \<times> string) list \<Rightarrow> string \<Rightarrow> string \<Rightarrow> string" where
  "headers_get headers name dflt =
     (if header_values headers name = [] then dflt
      else join '', '' (header_values headers name))"

definition headers_dict :: "(string \<times> string) list \<Rightarrow> (string \<times> string) list" where
  "headers_dict headers =
     map (\<lambda>name. (name, join '', '' (header_values headers name)))
       (map fst (dict_of_items headers))"

text \<open>
  \<open>JSONResponse\<close> renders its content with \<^verbatim>\<open>json.dumps(..., allow_nan=False)\<close>, which
  raises \<open>ValueError\<close> when a \<open>NaN\<close> or an infinity occurs anywhere in the content.
\<close>

fun non_finite :: "json \<Rightarrow> bool" where
  "non_finite (JFloat (Finite r)) = False"
| "non_finite (JFloat f) = True"
| "non_finite (JArr xs) = list_ex non_finite xs"
| "non_finite (JObj kvs) = list_ex non_finite (map snd kvs)"
| "non_finite v = False"

definition JSONResponse ::
  "json \<Rightarrow> nat \<Rightarrow> (string \<times> string) list \<Rightarrow> handler_error + json_response"
where
  "JSONResponse content status_code headers =
     (if non_finite content then Inl (Uncaught ''ValueError'')
      else Inr \<lparr> jr_content = content, jr_status_code = status_code, jr_headers = headers \<rparr>)"

text \<open>
  \<^verbatim>\<open>
  if response.headers.get("content-type", "").startswith("application/json"):
      try:
          content = response.json()
      except:
          content = {"content": response.text}
  else:
      content = {"content": response.text}
  return JSONResponse(content=content, status_code=response.status_code,
                      headers=dict(response.headers))
  \<close>
\<close>

definition response_content :: "json response \<Rightarrow> json" where
  "response_content response =
     (if startswith (headers_get (resp_headers response) ''content-type'' []) ''application/json''
      then (case resp_decoded response of
              Some v \<Rightarrow> v
            | None \<Rightarrow> JObj [(''content'', JStr (resp_text response))])
      else JObj [(''content'', JStr (resp_text response))])"

definition normalize_response :: "json response \<Rightarrow> handler_error + json_response" where
  "normalize_response response =
     JSONResponse (response_content response) (resp_status_code response)
       (headers_dict (resp_headers response))"

text \<open>The detail prefix of the 502, UTF-8 bytes of the source's literal before \<open>{e}\<close>.\<close>

definition unreachable_detail :: string where
  "unreachable_detail =
     map char_of [230, 151, 160, 230, 179, 149, 232, 191, 158, 230, 142, 165, 229, 136, 176,
                  32, 70, 97, 115, 116, 65, 80, 73, 32, 230, 156, 141, 229, 138, 161, 58, 32 :: nat]"

definition handler ::
  "(string \<Rightarrow> json option) \<Rightarrow> (outbound \<Rightarrow> json remote_result) \<Rightarrow>
   string \<Rightarrow> string \<Rightarrow> string \<Rightarrow> request \<Rightarrow> handler_error + json_response"
where
  "handler loads client method path_template target_url request =
     (case client_request client (forward_call loads method path_template target_url request) of
        Responded response \<Rightarrow> normalize_response response
      | RequestError e \<Rightarrow> Inl (HTTPException 502 (unreachable_detail @ e))
      | OtherError e \<Rightarrow> Inl (Uncaught e))"

section \<open>Gateway assembly\<close>

text \<open>
  \<^verbatim>\<open>response.raise_for_status()\<close> of httpx returns for a success status (2xx) and raises
  \<open>HTTPStatusError\<close> otherwise.
\<close>

definition is_success :: "nat \<Rightarrow> bool" where
  "is_success status = (200 \<le> status \<and> status \<le> 299)"

datatype startup_error =
    CannotConnect string string
  | SchemaStatus nat
  | Raised string

text \<open>
  \<^verbatim>\<open>
  response = await client.get(f"{api_url}/openapi.json")
  response.raise_for_status()
  return response.json()
  \<close>
  with \<open>RequestError\<close> and \<open>HTTPStatusError\<close> turned into \<open>Exception\<close>; an exception of
  \<open>response.json()\<close> is not caught here.
\<close>

definition fetch_openapi_schema ::
  "(string \<Rightarrow> openapi_schema remote_result) \<Rightarrow> string \<Rightarrow> startup_error + openapi_schema"
where
  "fetch_openapi_schema client_get api_url =
     (case client_get (api_url @ ''/openapi.json'') of
        RequestError e \<Rightarrow> Inl (CannotConnect api_url e)
      | OtherError e \<Rightarrow> Inl (Raised e)
      | Responded response \<Rightarrow>
          if \<not> is_success (resp_status_code response)
          then Inl (SchemaStatus (resp_status_code response))
          else (case resp_decoded response of
                  None \<Rightarrow> Inl (Raised ''JSONDecodeError'')
                | Some doc \<Rightarrow> Inr doc))"

definition FASTAPI_SERVICE_URL :: string where
  "FASTAPI_SERVICE_URL = ''http://localhost:6673''"

text \<open>
  \<open>setup_mcp_server\<close> returns the proxy application (here its route list) or \<open>None\<close>;
  \<open>mcp_mounts\<close> says whether building and mounting \<open>FastApiMCP\<close> on the application
  completes without an exception.
\<close>

definition setup_mcp_server ::
  "(string \<Rightarrow> openapi_schema remote_result) \<Rightarrow> (route list \<Rightarrow> bool) \<Rightarrow> route list option"
where
  "setup_mcp_server client_get mcp_mounts =
     (case fetch_openapi_schema client_get FASTAPI_SERVICE_URL of
        Inl e \<Rightarrow> None
      | Inr openapi_schema \<Rightarrow>
          (case create_proxy_routes [] openapi_schema FASTAPI_SERVICE_URL of
             (proxy_app, route_count) \<Rightarrow>
               if mcp_mounts proxy_app then Some proxy_app else None))"

text \<open>
  Inbound calls served one after another, each with the index of the route it was
  dispatched to. A handler is given the request only; the application is passed along
  unchanged.
\<close>

definition run_route ::
  "(string \<Rightarrow> json option) \<Rightarrow> (outbound \<Rightarrow> json remote_result) \<Rightarrow> route \<Rightarrow> request \<Rightarrow>
   handler_error + json_response"
where
  "run_route loads client r request =
     handler loads client (handler_method r) (handler_path_template r) (handler_target_url r)
       request"

fun serve_calls ::
  "(string \<Rightarrow> json option) \<Rightarrow> (outbound \<Rightarrow> json remote_result) \<Rightarrow> route list \<Rightarrow>
   (nat \<times> request) list \<Rightarrow> (handler_error + json_response) option list \<times> route list"
where
  "serve_calls loads client app [] = ([], app)"
| "serve_calls loads client app ((i, request) # rest) =
     (let result = (if i < length app then Some (run_route loads client (app ! i) request)
                    else None)
      in case serve_calls loads client app rest of
           (results, app') \<Rightarrow> (result # results, app'))"

section \<open>Path substitution in the spec's words\<close>

text \<open>
  A path template is literal text and named placeholders in turn; its text writes a
  placeholder as its name in braces. Substitution replaces every placeholder whose name
  has an inbound value by that value and leaves the others as they are.
\<close>

datatype segment = Lit string | Hole string

fun render_segment :: "segment \<Rightarrow> string" where
  "render_segment (Lit s) = s"
| "render_segment (Hole name) = ''{'' @ name @ ''}''"

definition render :: "segment list \<Rightarrow> string" where
  "render segments = concat (map render_segment segments)"

fun fill :: "(string \<times> string) list \<Rightarrow> segment \<Rightarrow> segment" where
  "fill params (Lit s) = Lit s"
| "fill params (Hole name) =
     (case map_of params name of Some v \<Rightarrow> Lit v | None \<Rightarrow> Hole name)"

definition spec_substitute :: "segment list \<Rightarrow> (string \<times> string) list \<Rightarrow> string" where
  "spec_substitute segments params = render (map (fill params) segments)"

text \<open>Text without braces: what a literal part, a name or a value is expected to be.\<close>

definition brace_free :: "string \<Rightarrow> bool" where
  "brace_free s = (CHR ''{'' \<notin> set s \<and> CHR ''}'' \<notin> set s)"

fun segment_ok :: "segment \<Rightarrow> bool" where
  "segment_ok (Lit s) = brace_free s"
| "segment_ok (Hole name) = brace_free name"

fun param_ok :: "string \<times> string \<Rightarrow> bool" where
  "param_ok (name, v) = (brace_free name \<and> brace_free v)"

section \<open>Example inputs\<close>

definition two_path_schema :: openapi_schema where
  "two_path_schema =
     \<lparr> schema_info = \<lparr> title = ''Demo'', version = ''1'' \<rparr>,
       paths = [(''/a/b'', [(''get'', \<lparr> operationId = None, tags = [] \<rparr>),
                            (''head'', \<lparr> operationId = None, tags = [] \<rparr>)]),
                (''/a_b'', [(''get'', \<lparr> operationId = None, tags = [] \<rparr>)])] \<rparr>"


text \<open>A decoder that knows five bodies, and two inbound calls.\<close>

definition example_loads :: "string \<Rightarrow> json option" where
  "example_loads raw =
     (if raw = ''{\"a\":1}'' then Some (JObj [(''a'', JInt 1)])
      else if raw = ''[1]'' then Some (JArr [JInt 1])
      else if raw = ''{}'' then Some (JObj [])
      else if raw = ''7'' then Some (JInt 7)
      else if raw = ''\"hi\"'' then Some (JStr ''hi'')
      else None)"

definition example_post :: "string \<Rightarrow> request" where
  "example_post raw =
     \<lparr> rq_method = ''POST'',
       rq_body = Some raw,
       rq_query_params = [(''page'', ''2''), (''tag'', ''a''), (''tag'', ''b'')],
       rq_headers = [(''host'', ''local''), (''authorization'', ''Bearer x''),
                     (''x-custom'', ''y'')],
       rq_path_params = [(''id'', ''7'')] \<rparr>"

definition example_get :: request where
  "example_get =
     \<lparr> rq_method = ''GET'',
       rq_body = Some [],
       rq_query_params = [(''page'', ''2''), (''size'', ''10'')],
       rq_headers = [(''host'', ''local''), (''authorization'', ''Bearer x''),
                     (''x-custom'', ''y'')],
       rq_path_params = [(''id'', ''7''), (''sub_id'', ''3'')] \<rparr>"

text \<open>A remote that cannot be reached for \<open>/down\<close> and answers every other call.\<close>

definition pong :: "json response" where
  "pong = \<lparr> resp_status_code = 200,
            resp_headers = [(''content-type'', ''application/json''), (''x-served-by'', ''remote'')],
            resp_text = ''{\"pong\":true}'',
            resp_decoded = Some (JObj [(''pong'', JBool True)]) \<rparr>"




definition example_client :: "outbound \<Rightarrow> json remote_result" where
  "example_client call =
     (if out_url call = ''http://localhost:6673/down'' then RequestError ''refused''
      else Responded pong)"

definition example_app :: "route list" where
  "example_app =
     [make_route ''http://localhost:6673'' ''/down'' ''get'' \<lparr> operationId = None, tags = [] \<rparr>,
      make_route ''http://localhost:6673'' ''/ping'' ''get'' \<lparr> operationId = None, tags = [] \<rparr>]"

section \<open>Facts about the Python primitives\<close>

lemma str_replace_char_char:
  "str_replace [a] [b] s = map (\<lambda>c. if c = a then b else c) s"
  by (induction s) auto

lemma str_replace_char_empty:
  "str_replace [a] [] s = filter (\<lambda>c. c \<noteq> a) s"
  by (induction s) auto



section \<open>The route table\<close>



















section \<open>Identifier derivation\<close>

lemma derive_operation_id_eq:
  "derive_operation_id method path = method @ ''_'' @
     strip ''_'' (filter (\<lambda>c. c \<noteq> CHR ''{'' \<and> c \<noteq> CHR ''}'')
       (map (\<lambda>c. if c = CHR ''/'' then CHR ''_'' else c) path))"
  by (simp add: derive_operation_id_def str_replace_char_char str_replace_char_empty conj_commute)

text \<open>
  C2 (as amended). Without a declared identifier (or with an empty one) the identifier
  is the lower-case method name, an underscore, and the path with every separator turned
  into an underscore, the placeholder braces removed and the underscores at both ends
  stripped. Repeated separators are not collapsed, so this is the spec's normalization for
  the paths that have no repeated separator; \<open>get\<close> and \<open>/users/{user_id}\<close> give
  \<open>get_users_user_id\<close>; a declared identifier that is not empty is used verbatim.
\<close>

theorem derive_operation_id_normalizes:
  "(collapse_separators path = path \<longrightarrow>
      derive_operation_id method path = spec_derive method path)
   \<and> derive_operation_id ''get'' ''/users/{user_id}'' = ''get_users_user_id''
   \<and> (operationId operation = None \<or> operationId operation = Some [] \<longrightarrow>
        choose_operation_id method path operation = derive_operation_id method path)
   \<and> (operationId operation = Some declared \<and> declared \<noteq> [] \<longrightarrow>
        choose_operation_id method path operation = declared)"
proof -
  have a: "collapse_separators path = path \<longrightarrow>
      derive_operation_id method path = spec_derive method path"
    by (simp add: derive_operation_id_eq spec_derive_def spec_normalized_path_def)
  have b: "derive_operation_id ''get'' ''/users/{user_id}'' = ''get_users_user_id''"
    by (simp add: derive_operation_id_def strip_def)
  have c: "operationId operation = None \<or> operationId operation = Some [] \<longrightarrow>
        choose_operation_id method path operation = derive_operation_id method path"
    by (auto simp: choose_operation_id_def)
  have d: "operationId operation = Some declared \<and> declared \<noteq> [] \<longrightarrow>
        choose_operation_id method path operation = declared"
    by (simp add: choose_operation_id_def)
  from a b c d show ?thesis by simp
qed

theorem derive_operation_id_normalizes_witness:
  "collapse_separators ''/items/{id}/sub/{sub_id}'' = ''/items/{id}/sub/{sub_id}''
   \<and> derive_operation_id ''post'' ''/items/{id}/sub/{sub_id}'' = ''post_items_id_sub_sub_id''
   \<and> spec_derive ''post'' ''/items/{id}/sub/{sub_id}'' = ''post_items_id_sub_sub_id''
   \<and> choose_operation_id ''post'' ''/items/{id}/sub/{sub_id}''
        \<lparr> operationId = None, tags = [] \<rparr> = ''post_items_id_sub_sub_id''
   \<and> choose_operation_id ''post'' ''/items/{id}/sub/{sub_id}''
        \<lparr> operationId = Some ''create_sub'', tags = [] \<rparr> = ''create_sub''"
proof -
  have h: "collapse_separators ''/items/{id}/sub/{sub_id}'' = ''/items/{id}/sub/{sub_id}''"
    by simp
  have v: "derive_operation_id ''post'' ''/items/{id}/sub/{sub_id}'' = ''post_items_id_sub_sub_id''"
    by (simp add: derive_operation_id_def strip_def)
  show ?thesis
    using h v
      derive_operation_id_normalizes[of "''/items/{id}/sub/{sub_id}''" "''post''"
        "\<lparr> operationId = None, tags = [] \<rparr>" "''x''"]
      derive_operation_id_normalizes[of "''/items/{id}/sub/{sub_id}''" "''post''"
        "\<lparr> operationId = Some ''create_sub'', tags = [] \<rparr>" "''create_sub''"]
    by simp
qed

theorem derive_operation_id_no_collapse_counterexample:
  "derive_operation_id ''get'' ''/a//b'' = ''get_a__b''
   \<and> spec_derive ''get'' ''/a//b'' = ''get_a_b''
   \<and> derive_operation_id ''get'' ''/a//b'' \<noteq> spec_derive ''get'' ''/a//b''"
  by (simp add: derive_operation_id_def spec_derive_def spec_normalized_path_def strip_def)

section \<open>Body relaying\<close>

lemma forward_call_body:
  "out_json (forward_call loads method path_template target_url request) =
     (if body_truthy (read_body loads request) \<and> is_dict (read_body loads request)
      then Some (read_body loads request) else None)"
  "out_content (forward_call loads method path_template target_url request) =
     (if body_truthy (read_body loads request) \<and> \<not> is_dict (read_body loads request)
      then Some (read_body loads request) else None)"
  by (simp_all add: forward_call_def Let_def)

lemma read_body_cases:
  "rq_method request \<notin> set [''POST'', ''PUT'', ''PATCH''] \<Longrightarrow>
     read_body loads request = BJson JNull"
  "rq_method request \<in> set [''POST'', ''PUT'', ''PATCH''] \<Longrightarrow> rq_body request = Some raw \<Longrightarrow>
     loads raw = Some v \<Longrightarrow> read_body loads request = BJson v"
  "rq_method request \<in> set [''POST'', ''PUT'', ''PATCH''] \<Longrightarrow> rq_body request = Some raw \<Longrightarrow>
     loads raw = None \<Longrightarrow> read_body loads request = BBytes raw"
  "rq_method request \<in> set [''POST'', ''PUT'', ''PATCH''] \<Longrightarrow> rq_body request = None \<Longrightarrow>
     read_body loads request = BJson JNull"
  by (simp_all add: read_body_def)

lemma client_request_no_content:
  "out_content call = None \<Longrightarrow> client_request client call = client call"
  by (simp add: client_request_def)

lemma client_request_bytes:
  "out_content call = Some (BBytes raw) \<Longrightarrow> client_request client call = client call"
  by (simp add: client_request_def)


lemma client_request_refused:
  "out_content call = Some content \<Longrightarrow> encode_content content = Inl e \<Longrightarrow>
     client_request client call = OtherError e"
  by (simp add: client_request_def)

text \<open>
  What the guards on the two body arguments give: a body that decodes to a non-empty
  object is the JSON argument and no content is set; when decoding fails and the payload
  is not empty the original bytes are the content and no JSON is set; for a method other
  than POST, PUT and PATCH neither is set; and never both.
\<close>

lemma body_arguments:
  "(rq_method request \<in> set [''POST'', ''PUT'', ''PATCH''] \<and> rq_body request = Some raw
      \<and> loads raw = Some (JObj kvs) \<and> kvs \<noteq> [] \<longrightarrow>
        out_json (forward_call loads method path_template target_url request)
          = Some (BJson (JObj kvs))
        \<and> out_content (forward_call loads method path_template target_url request) = None)
   \<and> (rq_method request \<in> set [''POST'', ''PUT'', ''PATCH''] \<and> rq_body request = Some raw
      \<and> loads raw = None \<and> raw \<noteq> [] \<longrightarrow>
        out_content (forward_call loads method path_template target_url request)
          = Some (BBytes raw)
        \<and> out_json (forward_call loads method path_template target_url request) = None)
   \<and> (rq_method request \<notin> set [''POST'', ''PUT'', ''PATCH''] \<longrightarrow>
        out_json (forward_call loads method path_template target_url request) = None
        \<and> out_content (forward_call loads method path_template target_url request) = None)
   \<and> (out_json (forward_call loads method path_template target_url request) = None
        \<or> out_content (forward_call loads method path_template target_url request) = None)"
  by (simp add: forward_call_body read_body_def)


text \<open>
  C3. A body that decodes is not always relayed as JSON. The body \<open>[1]\<close> of a POST decodes
  to a list, which is no dict, so the handler gives it to the client as the content
  argument and sets no JSON argument; the client refuses a list before anything is
  sent, and the inbound call ends in that uncaught error. The claim has the decoded value
  forwarded and the raw payload used exactly when decoding fails.
\<close>

theorem decoded_array_is_not_relayed:
  "example_loads ''[1]'' = Some (JArr [JInt 1])
   \<and> out_json (forward_call example_loads ''POST'' ''/items/{id}'' ''http://localhost:6673''
       (example_post ''[1]'')) = None
   \<and> out_content (forward_call example_loads ''POST'' ''/items/{id}'' ''http://localhost:6673''
       (example_post ''[1]'')) = Some (BJson (JArr [JInt 1]))
   \<and> handler example_loads example_client ''POST'' ''/items/{id}'' ''http://localhost:6673''
       (example_post ''[1]'') = Inl (Uncaught ''RuntimeError'')"
proof -
  have l: "example_loads ''[1]'' = Some (JArr [JInt 1])"
    by (simp add: example_loads_def)
  have b: "read_body example_loads (example_post ''[1]'') = BJson (JArr [JInt 1])"
    using l by (simp add: read_body_def example_post_def)
  have j: "out_json (forward_call example_loads ''POST'' ''/items/{id}'' ''http://localhost:6673''
       (example_post ''[1]'')) = None"
    by (simp add: forward_call_body b)
  have c: "out_content (forward_call example_loads ''POST'' ''/items/{id}''
       ''http://localhost:6673'' (example_post ''[1]'')) = Some (BJson (JArr [JInt 1]))"
    by (simp add: forward_call_body b)
  have r: "client_request example_client (forward_call example_loads ''POST'' ''/items/{id}''
       ''http://localhost:6673'' (example_post ''[1]'')) = OtherError ''RuntimeError''"
    using c by (rule client_request_refused) simp
  have h: "handler example_loads example_client ''POST'' ''/items/{id}'' ''http://localhost:6673''
       (example_post ''[1]'') = Inl (Uncaught ''RuntimeError'')"
    by (simp add: handler_def r)
  from l j c h show ?thesis by blast
qed




section \<open>Dicts built from items\<close>

lemma dict_set_fresh:
  "k \<notin> fst ` set d \<Longrightarrow> dict_set d k v = d @ [(k, v)]"
  by (induction d) auto

lemma dict_set_keys:
  "map fst (dict_set d k v) = (if k \<in> fst ` set d then map fst d else map fst d @ [k])"
  by (induction d) (auto simp: rev_image_eqI)

lemma dict_set_map_of:
  "map_of (dict_set d k v) = (map_of d)(k \<mapsto> v)"
  by (induction d) (auto simp: fun_upd_twist)

lemma dict_of_items_snoc:
  "dict_of_items (items @ [(k, v)]) = dict_set (dict_of_items items) k v"
  by (simp add: dict_of_items_def)

lemma dict_of_items_keys_set:
  "fst ` set (dict_of_items items) = fst ` set items"
proof (induction items rule: rev_induct)
  case Nil
  show ?case by (simp add: dict_of_items_def)
next
  case (snoc x xs)
  obtain k v where x: "x = (k, v)" by (cases x)
  have "set (map fst (dict_of_items (xs @ [x]))) = insert k (set (map fst (dict_of_items xs)))"
    unfolding x dict_of_items_snoc dict_set_keys by auto
  with snoc show ?case by (simp add: x)
qed

lemma dict_of_items_distinct:
  "distinct (map fst items) \<Longrightarrow> dict_of_items items = items"
proof (induction items rule: rev_induct)
  case Nil
  show ?case by (simp add: dict_of_items_def)
next
  case (snoc x xs)
  obtain k v where x: "x = (k, v)" by (cases x)
  from snoc.prems have d: "distinct (map fst xs)" and f: "k \<notin> fst ` set xs"
    by (auto simp: x)
  from snoc.IH[OF d] f show ?case
    unfolding x dict_of_items_snoc by (simp add: dict_set_fresh)
qed

lemma dict_of_items_keys:
  "map fst (dict_of_items items) = rev (remdups (rev (map fst items)))"
proof (induction items rule: rev_induct)
  case Nil
  show ?case by (simp add: dict_of_items_def)
next
  case (snoc x xs)
  obtain k v where x: "x = (k, v)" by (cases x)
  show ?case
    unfolding x dict_of_items_snoc dict_set_keys dict_of_items_keys_set
    using snoc.IH by auto
qed

lemma dict_of_items_map_of:
  "map_of (dict_of_items items) = map_of (rev items)"
proof (induction items rule: rev_induct)
  case Nil
  show ?case by (simp add: dict_of_items_def)
next
  case (snoc x xs)
  obtain k v where x: "x = (k, v)" by (cases x)
  show ?case
    unfolding x dict_of_items_snoc dict_set_map_of using snoc.IH by simp
qed

section \<open>Header relaying\<close>

lemma relay_headers_cong:
  "(\<And>k. k \<in> set names \<Longrightarrow> map_of a k = map_of b k) \<Longrightarrow>
     relay_headers names a headers = relay_headers names b headers"
  by (induction names arbitrary: headers) (auto split: option.splits)

lemma relayed_headers_eq:
  "relay_headers relayed_header_names inbound [] =
     (case map_of inbound ''authorization'' of
        None \<Rightarrow> [] | Some v \<Rightarrow> [(''authorization'', v)]) @
     (case map_of inbound ''content-type'' of
        None \<Rightarrow> [] | Some v \<Rightarrow> [(''content-type'', v)])"
  by (simp add: relayed_header_names_def split: option.splits)

lemma proxy_relayed_headers_subset:
  "set (relay_headers proxy_relayed_header_names inbound [])
     \<subseteq> set (relay_headers relayed_header_names inbound [])"
  by (simp add: proxy_relayed_header_names_def relayed_header_names_def split: option.splits)

lemma forward_call_headers:
  "out_headers (forward_call loads method path_template target_url request) =
     relay_headers relayed_header_names (rq_headers request) []"
  by (simp add: forward_call_def Let_def)

lemma forward_call_headers_update:
  "forward_call loads method path_template target_url (request\<lparr>rq_headers := hs\<rparr>) =
     (forward_call loads method path_template target_url request)
       \<lparr>out_headers := relay_headers relayed_header_names hs []\<rparr>"
  by (simp add: forward_call_def Let_def read_body_def)

text \<open>
  C4. The outbound headers are drawn only from \<open>authorization\<close> and \<open>content-type\<close>:
  a pair is sent exactly when its name is one of the two and its value is the inbound
  value of that name. Replacing the inbound headers by any others that agree on these two
  names changes neither the outbound call nor the handler's result.
\<close>

theorem header_isolation:
  "((k, v) \<in> set (out_headers (forward_call loads method path_template target_url request))
      \<longleftrightarrow> k \<in> {''authorization'', ''content-type''} \<and> map_of (rq_headers request) k = Some v)
   \<and> (map_of hs ''authorization'' = map_of (rq_headers request) ''authorization''
        \<and> map_of hs ''content-type'' = map_of (rq_headers request) ''content-type'' \<longrightarrow>
        forward_call loads method path_template target_url (request\<lparr>rq_headers := hs\<rparr>)
          = forward_call loads method path_template target_url request
        \<and> handler loads client method path_template target_url (request\<lparr>rq_headers := hs\<rparr>)
          = handler loads client method path_template target_url request)"
proof -
  have a: "(k, v) \<in> set (out_headers (forward_call loads method path_template target_url request))
      \<longleftrightarrow> k \<in> {''authorization'', ''content-type''} \<and> map_of (rq_headers request) k = Some v"
    unfolding forward_call_headers relayed_headers_eq
    by (auto split: option.splits)
  have b: "forward_call loads method path_template target_url (request\<lparr>rq_headers := hs\<rparr>)
          = forward_call loads method path_template target_url request"
    if "map_of hs ''authorization'' = map_of (rq_headers request) ''authorization''"
      and "map_of hs ''content-type'' = map_of (rq_headers request) ''content-type''"
  proof -
    have "relay_headers relayed_header_names hs [] =
            relay_headers relayed_header_names (rq_headers request) []"
      using that by (intro relay_headers_cong) (auto simp: relayed_header_names_def)
    then show ?thesis
      unfolding forward_call_headers_update
      by (simp add: forward_call_headers[symmetric])
  qed
  have c: "handler loads client method path_template target_url (request\<lparr>rq_headers := hs\<rparr>)
          = handler loads client method path_template target_url request"
    if "map_of hs ''authorization'' = map_of (rq_headers request) ''authorization''"
      and "map_of hs ''content-type'' = map_of (rq_headers request) ''content-type''"
    using b[OF that] by (simp add: handler_def)
  from a b c show ?thesis by blast
qed

theorem header_isolation_witness:
  "out_headers (forward_call example_loads ''GET'' ''/items/{id}/sub/{sub_id}''
       ''http://localhost:6673'' example_get) = [(''authorization'', ''Bearer x'')]
   \<and> (''host'', ''local'') \<notin> set (out_headers (forward_call example_loads ''GET''
       ''/items/{id}/sub/{sub_id}'' ''http://localhost:6673'' example_get))
   \<and> (''x-custom'', ''y'') \<notin> set (out_headers (forward_call example_loads ''GET''
       ''/items/{id}/sub/{sub_id}'' ''http://localhost:6673'' example_get))
   \<and> forward_call example_loads ''GET'' ''/items/{id}/sub/{sub_id}'' ''http://localhost:6673''
        (example_get\<lparr>rq_headers := [(''authorization'', ''Bearer x''), (''host'', ''other''),
                                     (''connection'', ''close'')]\<rparr>)
      = forward_call example_loads ''GET'' ''/items/{id}/sub/{sub_id}'' ''http://localhost:6673''
        example_get"
proof -
  have h: "map_of [(''authorization'', ''Bearer x''), (''host'', ''other''),
                   (''connection'', ''close'')] ''authorization''
             = map_of (rq_headers example_get) ''authorization''
           \<and> map_of [(''authorization'', ''Bearer x''), (''host'', ''other''),
                   (''connection'', ''close'')] ''content-type''
             = map_of (rq_headers example_get) ''content-type''"
    by (simp add: example_get_def)
  have e: "out_headers (forward_call example_loads ''GET'' ''/items/{id}/sub/{sub_id}''
       ''http://localhost:6673'' example_get) = [(''authorization'', ''Bearer x'')]"
    by (simp add: forward_call_headers relayed_headers_eq example_get_def)
  have n1: "(''host'', ''local'') \<notin> set (out_headers (forward_call example_loads ''GET''
       ''/items/{id}/sub/{sub_id}'' ''http://localhost:6673'' example_get))"
    using header_isolation[of "''host''" "''local''" example_loads "''GET''"
        "''/items/{id}/sub/{sub_id}''" "''http://localhost:6673''" example_get]
    by simp
  have n2: "(''x-custom'', ''y'') \<notin> set (out_headers (forward_call example_loads ''GET''
       ''/items/{id}/sub/{sub_id}'' ''http://localhost:6673'' example_get))"
    using header_isolation[of "''x-custom''" "''y''" example_loads "''GET''"
        "''/items/{id}/sub/{sub_id}''" "''http://localhost:6673''" example_get]
    by simp
  have f: "forward_call example_loads ''GET'' ''/items/{id}/sub/{sub_id}'' ''http://localhost:6673''
        (example_get\<lparr>rq_headers := [(''authorization'', ''Bearer x''), (''host'', ''other''),
                                     (''connection'', ''close'')]\<rparr>)
      = forward_call example_loads ''GET'' ''/items/{id}/sub/{sub_id}'' ''http://localhost:6673''
        example_get"
    using h header_isolation[of "''host''" "''local''" example_loads "''GET''"
        "''/items/{id}/sub/{sub_id}''" "''http://localhost:6673''" example_get
        "[(''authorization'', ''Bearer x''), (''host'', ''other''), (''connection'', ''close'')]"]
    by blast
  from e n1 n2 f show ?thesis by blast
qed

section \<open>Query relaying\<close>

lemma forward_call_params:
  "out_params (forward_call loads method path_template target_url request) =
     dict_of_items (rq_query_params request)"
  by (simp add: forward_call_def Let_def)

text \<open>
  C7 (as amended). The outbound query is the dict built from the inbound query items:
  its names are the inbound names in the order of their first occurrence, and each name
  carries the last value given for it. So when the inbound names are pairwise different,
  all inbound query parameters are forwarded verbatim in the inbound order.
\<close>

theorem query_relaying:
  "map fst (out_params (forward_call loads method path_template target_url request))
      = rev (remdups (rev (map fst (rq_query_params request))))
   \<and> map_of (out_params (forward_call loads method path_template target_url request))
      = map_of (rev (rq_query_params request))
   \<and> (distinct (map fst (rq_query_params request)) \<longrightarrow>
        out_params (forward_call loads method path_template target_url request)
          = rq_query_params request)"
  unfolding forward_call_params
  by (simp add: dict_of_items_keys dict_of_items_map_of dict_of_items_distinct)

theorem query_relaying_witness:
  "distinct (map fst (rq_query_params example_get))
   \<and> out_params (forward_call example_loads ''GET'' ''/items/{id}/sub/{sub_id}''
        ''http://localhost:6673'' example_get) = [(''page'', ''2''), (''size'', ''10'')]"
proof -
  have d: "distinct (map fst (rq_query_params example_get))"
    by (simp add: example_get_def)
  have q: "rq_query_params example_get = [(''page'', ''2''), (''size'', ''10'')]"
    by (simp add: example_get_def)
  show ?thesis
    using d q query_relaying[of example_loads "''GET''" "''/items/{id}/sub/{sub_id}''"
        "''http://localhost:6673''" example_get]
    by simp
qed

theorem query_relaying_repeated_name_counterexample:
  "rq_query_params (example_post ''hello'')
      = [(''page'', ''2''), (''tag'', ''a''), (''tag'', ''b'')]
   \<and> out_params (forward_call example_loads ''POST'' ''/items/{id}'' ''http://localhost:6673''
        (example_post ''hello'')) = [(''page'', ''2''), (''tag'', ''b'')]
   \<and> (''tag'', ''a'') \<notin> set (out_params (forward_call example_loads ''POST'' ''/items/{id}''
        ''http://localhost:6673'' (example_post ''hello'')))"
  by (simp add: forward_call_params example_post_def dict_of_items_def)

section \<open>Response normalization\<close>









section \<open>Unreachable remote at call time\<close>

lemma serve_calls_eq:
  "serve_calls loads client app calls =
     (map (\<lambda>(i, request). if i < length app
                            then Some (run_route loads client (app ! i) request) else None)
        calls, app)"
  by (induction calls) (auto simp: Let_def)

lemma client_request_other_remote:
  "call \<noteq> failing \<Longrightarrow>
     client_request (client(failing := outcome)) call = client_request client call"
  by (simp add: client_request_def split: option.splits sum.splits)

lemma run_route_other_remote:
  assumes "forward_call loads (handler_method r) (handler_path_template r)
             (handler_target_url r) request \<noteq> failing"
  shows "run_route loads (client(failing := RequestError e)) r request
           = run_route loads client r request"
  using assms by (simp add: run_route_def handler_def client_request_other_remote)

lemma client_request_request_error:
  "(client_request client call = RequestError e) =
     (client call = RequestError e
      \<and> (\<forall>content. out_content call = Some content \<longrightarrow>
             (\<exists>payload. encode_content content = Inr payload)))"
  by (cases "out_content call")
     (auto simp: client_request_def split: sum.splits)

text \<open>
  C9. When awaiting the client raises a request error for the outbound call, the handler
  raises the HTTP exception with status 502 for that inbound call; that happens exactly
  when the remote cannot be reached for a call whose content, if it has one, the client
  can send. Serving calls leaves the route
  table as it was, and the outcome of every call is that of its own route's handler on
  its own request: a call whose outbound call is another one has the same outcome whether
  the failing outbound call reaches the remote or not.
\<close>

theorem remote_unreachable_is_502:
  "(client_request client (forward_call loads method path_template target_url request)
        = RequestError e \<longrightarrow>
      handler loads client method path_template target_url request
        = Inl (HTTPException 502 (unreachable_detail @ e)))
   \<and> (client_request client (forward_call loads method path_template target_url request)
        = RequestError e) =
     (client (forward_call loads method path_template target_url request) = RequestError e
      \<and> (\<forall>content.
            out_content (forward_call loads method path_template target_url request)
              = Some content \<longrightarrow>
            (\<exists>payload. encode_content content = Inr payload)))
   \<and> snd (serve_calls loads client app calls) = app
   \<and> fst (serve_calls loads client app calls) =
        map (\<lambda>(i, request). if i < length app
                then Some (run_route loads client (app ! i) request) else None) calls
   \<and> (forward_call loads (handler_method r) (handler_path_template r) (handler_target_url r)
          other \<noteq> forward_call loads method path_template target_url request \<longrightarrow>
        run_route loads
          (client(forward_call loads method path_template target_url request := RequestError e))
          r other
        = run_route loads client r other)"
proof -
  have bad_gateway:
    "client_request client (forward_call loads method path_template target_url request)
        = RequestError e \<longrightarrow>
      handler loads client method path_template target_url request
        = Inl (HTTPException 502 (unreachable_detail @ e))"
    by (simp add: handler_def)
  have reaches:
    "(client_request client (forward_call loads method path_template target_url request)
        = RequestError e) =
     (client (forward_call loads method path_template target_url request) = RequestError e
      \<and> (\<forall>content.
            out_content (forward_call loads method path_template target_url request)
              = Some content \<longrightarrow>
            (\<exists>payload. encode_content content = Inr payload)))"
    by (rule client_request_request_error)
  have table: "snd (serve_calls loads client app calls) = app"
    by (simp add: serve_calls_eq)
  have outcomes: "fst (serve_calls loads client app calls) =
        map (\<lambda>(i, request). if i < length app
                then Some (run_route loads client (app ! i) request) else None) calls"
    by (simp add: serve_calls_eq)
  have others:
    "forward_call loads (handler_method r) (handler_path_template r) (handler_target_url r)
          other \<noteq> forward_call loads method path_template target_url request \<longrightarrow>
        run_route loads
          (client(forward_call loads method path_template target_url request := RequestError e))
          r other
        = run_route loads client r other"
    using run_route_other_remote by blast
  from bad_gateway reaches table outcomes others show ?thesis by blast
qed

theorem remote_unreachable_is_502_witness:
  "example_client (forward_call example_loads ''GET'' ''/down'' ''http://localhost:6673''
       example_get) = RequestError ''refused''
   \<and> serve_calls example_loads example_client example_app [(0, example_get), (1, example_get)]
      = ([Some (Inl (HTTPException 502 (unreachable_detail @ ''refused''))),
          Some (Inr \<lparr> jr_content = JObj [(''pong'', JBool True)], jr_status_code = 200,
                      jr_headers = [(''content-type'', ''application/json''),
                                    (''x-served-by'', ''remote'')] \<rparr>)],
         example_app)
   \<and> forward_call example_loads ''GET'' ''/ping'' ''http://localhost:6673'' example_get
      \<noteq> forward_call example_loads ''GET'' ''/down'' ''http://localhost:6673'' example_get
   \<and> run_route example_loads
        ((\<lambda>call. Responded pong)
           (forward_call example_loads ''GET'' ''/down'' ''http://localhost:6673'' example_get
              := RequestError ''refused''))
        (example_app ! 1) example_get
      = run_route example_loads (\<lambda>call. Responded pong) (example_app ! 1) example_get"
proof -
  have c: "example_client (forward_call example_loads ''GET'' ''/down'' ''http://localhost:6673''
       example_get) = RequestError ''refused''"
    by (simp add: example_client_def forward_call_def Let_def example_get_def)
  have p: "example_client (forward_call example_loads ''GET'' ''/ping'' ''http://localhost:6673''
       example_get) = Responded pong"
    by (simp add: example_client_def forward_call_def Let_def example_get_def)
  have u: "upper ''get'' = ''GET''"
    by (simp add: upper_def upper_char_def char_of_def bit_Suc_0_iff)
  have nc: "out_content (forward_call example_loads ''GET'' path ''http://localhost:6673''
       example_get) = None" for path
    by (simp add: forward_call_def Let_def read_body_def example_get_def)
  have c': "client_request example_client (forward_call example_loads ''GET'' ''/down''
       ''http://localhost:6673'' example_get) = RequestError ''refused''"
    using c nc[of "''/down''"]
      remote_unreachable_is_502[of example_client example_loads "''GET''" "''/down''"
        "''http://localhost:6673''" example_get "''refused''"]
    by simp
  have p': "client_request example_client (forward_call example_loads ''GET'' ''/ping''
       ''http://localhost:6673'' example_get) = Responded pong"
    using p nc[of "''/ping''"] by (simp add: client_request_def)
  have np: "normalize_response pong
      = Inr \<lparr> jr_content = JObj [(''pong'', JBool True)], jr_status_code = 200,
              jr_headers = [(''content-type'', ''application/json''),
                            (''x-served-by'', ''remote'')] \<rparr>"
    by (simp add: normalize_response_def JSONResponse_def response_content_def pong_def
        headers_get_def header_values_def headers_dict_def dict_of_items_def startswith_def)
  have r0: "run_route example_loads example_client (example_app ! 0) example_get
      = Inl (HTTPException 502 (unreachable_detail @ ''refused''))"
    using c' remote_unreachable_is_502[of example_client example_loads "''GET''" "''/down''"
        "''http://localhost:6673''" example_get "''refused''"]
    by (simp add: run_route_def example_app_def make_route_def u)
  have r1: "run_route example_loads example_client (example_app ! 1) example_get
      = Inr \<lparr> jr_content = JObj [(''pong'', JBool True)], jr_status_code = 200,
              jr_headers = [(''content-type'', ''application/json''),
                            (''x-served-by'', ''remote'')] \<rparr>"
    using p' np by (simp add: run_route_def example_app_def make_route_def u handler_def)
  have l: "length example_app = 2"
    by (simp add: example_app_def)
  have s: "serve_calls example_loads example_client example_app
             [(0, example_get), (1, example_get)]
      = ([Some (Inl (HTTPException 502 (unreachable_detail @ ''refused''))),
          Some (Inr \<lparr> jr_content = JObj [(''pong'', JBool True)], jr_status_code = 200,
                      jr_headers = [(''content-type'', ''application/json''),
                                    (''x-served-by'', ''remote'')] \<rparr>)], example_app)"
    using r0 r1 l
      remote_unreachable_is_502[of example_client example_loads "''GET''" "''/down''"
        "''http://localhost:6673''" example_get "''refused''" example_app
        "[(0, example_get), (1, example_get)]"]
    by (simp add: prod_eq_iff)
  have d: "forward_call example_loads ''GET'' ''/ping'' ''http://localhost:6673'' example_get
      \<noteq> forward_call example_loads ''GET'' ''/down'' ''http://localhost:6673'' example_get"
    by (simp add: forward_call_def Let_def example_get_def)
  have a1: "handler_method (example_app ! 1) = ''GET''"
    "handler_path_template (example_app ! 1) = ''/ping''"
    "handler_target_url (example_app ! 1) = ''http://localhost:6673''"
    by (simp_all add: example_app_def make_route_def u)
  have o: "run_route example_loads
        ((\<lambda>call. Responded pong)
           (forward_call example_loads ''GET'' ''/down'' ''http://localhost:6673'' example_get
              := RequestError ''refused''))
        (example_app ! 1) example_get
      = run_route example_loads (\<lambda>call. Responded pong) (example_app ! 1) example_get"
    using d
      remote_unreachable_is_502[of "\<lambda>call. Responded pong" example_loads "''GET''" "''/down''"
        "''http://localhost:6673''" example_get "''refused''" example_app "[]"
        "example_app ! 1" example_get]
    unfolding a1 by blast
  from c s d o show ?thesis by blast
qed

section \<open>Path substitution\<close>

lemma str_replace_skip:
  "a \<notin> set l \<Longrightarrow> str_replace (a # old) new (l @ rest) = l @ str_replace (a # old) new rest"
  by (induction l) auto

lemma takeWhile_name:
  "CHR ''}'' \<notin> set n \<Longrightarrow> takeWhile (\<lambda>d. d \<noteq> CHR ''}'') (n @ CHR ''}'' # rest) = n"
  by (induction n) auto

lemma placeholder_prefix:
  assumes "brace_free n" "brace_free m"
  shows "take (Suc (length (n @ ''}''))) (CHR ''{'' # m @ ''}'' @ rest) = CHR ''{'' # n @ ''}''
           \<longleftrightarrow> m = n"
proof
  assume "take (Suc (length (n @ ''}''))) (CHR ''{'' # m @ ''}'' @ rest) = CHR ''{'' # n @ ''}''"
  then have "take (length (n @ ''}'')) (m @ ''}'' @ rest) = n @ ''}''" by simp
  then have "m @ ''}'' @ rest = (n @ ''}'') @ drop (length (n @ ''}'')) (m @ ''}'' @ rest)"
    by (metis append_take_drop_id)
  then have "takeWhile (\<lambda>d. d \<noteq> CHR ''}'') (m @ CHR ''}'' # rest)
           = takeWhile (\<lambda>d. d \<noteq> CHR ''}'')
               (n @ CHR ''}'' # drop (length (n @ ''}'')) (m @ ''}'' @ rest))"
    by simp
  with assms show "m = n" by (simp add: takeWhile_name brace_free_def)
next
  assume "m = n"
  then show "take (Suc (length (n @ ''}''))) (CHR ''{'' # m @ ''}'' @ rest) = CHR ''{'' # n @ ''}''"
    by simp
qed

lemma str_replace_hole:
  assumes "brace_free n" "brace_free m"
  shows "str_replace (''{'' @ n @ ''}'') v (''{'' @ m @ ''}'' @ rest) =
           (if m = n then v @ str_replace (''{'' @ n @ ''}'') v rest
            else ''{'' @ m @ ''}'' @ str_replace (''{'' @ n @ ''}'') v rest)"
proof (cases "m = n")
  case True
  then show ?thesis by simp
next
  case False
  have no: "take (Suc (length (n @ ''}''))) (CHR ''{'' # m @ ''}'' @ rest) \<noteq> CHR ''{'' # n @ ''}''"
    using placeholder_prefix[OF assms] False by blast
  have "CHR ''{'' \<notin> set (m @ ''}'')" using assms(2) by (simp add: brace_free_def)
  then have skip: "str_replace (CHR ''{'' # n @ ''}'') v ((m @ ''}'') @ rest)
      = (m @ ''}'') @ str_replace (CHR ''{'' # n @ ''}'') v rest"
    by (rule str_replace_skip)
  show ?thesis using no skip False by simp
qed

lemma str_replace_render:
  assumes "brace_free n" "list_all segment_ok segments"
  shows "str_replace (''{'' @ n @ ''}'') v (render segments)
           = render (map (fill [(n, v)]) segments)"
  using assms(2)
proof (induction segments)
  case Nil
  show ?case by (simp add: render_def)
next
  case (Cons s segments)
  then have ih: "str_replace (''{'' @ n @ ''}'') v (render segments)
           = render (map (fill [(n, v)]) segments)" by simp
  show ?case
  proof (cases s)
    case (Lit l)
    with Cons.prems have "CHR ''{'' \<notin> set l" by (simp add: brace_free_def)
    then have "str_replace (CHR ''{'' # n @ ''}'') v (l @ render segments)
        = l @ str_replace (CHR ''{'' # n @ ''}'') v (render segments)"
      by (rule str_replace_skip)
    with ih show ?thesis by (simp add: Lit render_def)
  next
    case (Hole m)
    with Cons.prems have m: "brace_free m" by simp
    from str_replace_hole[OF assms(1) m, of v "render segments"] ih
    show ?thesis by (simp add: Hole render_def)
  qed
qed

lemma fill_one_ok:
  "brace_free v \<Longrightarrow> segment_ok s \<Longrightarrow> segment_ok (fill [(n, v)] s)"
  by (cases s) auto

lemma fill_step:
  "fill rest (fill [(n, v)] s) = fill ((n, v) # rest) s"
  by (cases s) auto

text \<open>
  On a template whose literal parts and names have no brace, with parameters whose names
  and values have none, the replacements of the code fill every placeholder that has a
  value with that value and leave the others.
\<close>

lemma substitute_path_fills_placeholders:
  "list_all segment_ok segments \<Longrightarrow> list_all param_ok params \<Longrightarrow>
     substitute_path (render segments) params = spec_substitute segments params"
proof (induction params arbitrary: segments)
  case Nil
  have "map (fill []) segments = segments"
  proof (rule map_idI)
    fix s :: segment
    show "fill [] s = s" by (cases s) auto
  qed
  then show ?case by (simp add: spec_substitute_def)
next
  case (Cons p params)
  obtain n v where p: "p = (n, v)" by (cases p)
  from Cons.prems(2) have n: "brace_free n" and v: "brace_free v" and ps: "list_all param_ok params"
    by (simp_all add: p)
  have ok: "list_all segment_ok (map (fill [(n, v)]) segments)"
    using Cons.prems(1) v by (simp add: list_all_iff fill_one_ok)
  have "substitute_path (render segments) (p # params)
      = substitute_path (render (map (fill [(n, v)]) segments)) params"
    using str_replace_render[OF n Cons.prems(1), of v] by (simp add: p)
  also have "\<dots> = spec_substitute (map (fill [(n, v)]) segments) params"
    by (rule Cons.IH[OF ok ps])
  also have "\<dots> = spec_substitute segments (p # params)"
    by (simp add: spec_substitute_def p fill_step comp_def)
  finally show ?case .
qed

lemma substitute_path_examples:
  "render [Lit ''/items/'', Hole ''id'', Lit ''/sub/'', Hole ''sub_id'']
     = ''/items/{id}/sub/{sub_id}''"
  "substitute_path ''/items/{id}/sub/{sub_id}'' [(''id'', ''7''), (''sub_id'', ''3'')]
     = ''/items/7/sub/3''"
  "substitute_path ''/items/{id}/sub/{sub_id}'' [(''id'', ''7'')] = ''/items/7/sub/{sub_id}''"
  by (simp_all add: render_def)

text \<open>
  C5. The replacements run one parameter after the other on the whole text, so a value
  that was put in is read again by the later replacements: on the route \<open>/{a}/{b}\<close> the
  inbound path \<open>/{b}/x\<close> gives the parameters \<open>a = {b}\<close> and \<open>b = x\<close> and resolves to
  \<open>/x/x\<close>, where replacing each placeholder by its value gives \<open>/{b}/x\<close>.
\<close>

theorem substitute_path_reads_values_again:
  "render [Lit ''/'', Hole ''a'', Lit ''/'', Hole ''b''] = ''/{a}/{b}''
   \<and> substitute_path ''/{a}/{b}'' [(''a'', ''{b}''), (''b'', ''x'')] = ''/x/x''
   \<and> spec_substitute [Lit ''/'', Hole ''a'', Lit ''/'', Hole ''b'']
        [(''a'', ''{b}''), (''b'', ''x'')] = ''/{b}/x''"
  by (simp add: render_def spec_substitute_def)

section \<open>Schema fetch and startup\<close>

text \<open>
  C8 (as amended). The schema fetch succeeds exactly when the remote answers with a
  success status (200 to 299) and a body that decodes, and then returns the decoded
  document; it fails on a connection or timeout error, on any other status and on a body
  that does not decode. Whenever the fetch fails, \<open>setup_mcp_server\<close> returns no
  application, so no route is registered.
\<close>

theorem fetch_openapi_schema_success:
  "(fetch_openapi_schema client_get api_url = Inr doc) =
      (\<exists>response. client_get (api_url @ ''/openapi.json'') = Responded response
         \<and> 200 \<le> resp_status_code response \<and> resp_status_code response \<le> 299
         \<and> resp_decoded response = Some doc)
   \<and> (client_get (api_url @ ''/openapi.json'') = RequestError e \<longrightarrow>
        fetch_openapi_schema client_get api_url = Inl (CannotConnect api_url e))
   \<and> (fetch_openapi_schema client_get FASTAPI_SERVICE_URL = Inl err \<longrightarrow>
        setup_mcp_server client_get mcp_mounts = None)"
proof -
  have a: "(fetch_openapi_schema client_get api_url = Inr doc) =
      (\<exists>response. client_get (api_url @ ''/openapi.json'') = Responded response
         \<and> 200 \<le> resp_status_code response \<and> resp_status_code response \<le> 299
         \<and> resp_decoded response = Some doc)"
    by (cases "client_get (api_url @ ''/openapi.json'')")
       (auto simp: fetch_openapi_schema_def is_success_def split: option.splits)
  have b: "client_get (api_url @ ''/openapi.json'') = RequestError e \<longrightarrow>
        fetch_openapi_schema client_get api_url = Inl (CannotConnect api_url e)"
    by (simp add: fetch_openapi_schema_def)
  have c: "fetch_openapi_schema client_get FASTAPI_SERVICE_URL = Inl err \<longrightarrow>
        setup_mcp_server client_get mcp_mounts = None"
    by (simp add: setup_mcp_server_def)
  from a b c show ?thesis by blast
qed

theorem fetch_openapi_schema_success_witness:
  "fetch_openapi_schema (\<lambda>url. RequestError ''refused'') FASTAPI_SERVICE_URL
      = Inl (CannotConnect FASTAPI_SERVICE_URL ''refused'')
   \<and> setup_mcp_server (\<lambda>url. RequestError ''refused'') (\<lambda>app. True) = None
   \<and> fetch_openapi_schema
        (\<lambda>url. Responded \<lparr> resp_status_code = 200, resp_headers = [], resp_text = [],
                            resp_decoded = Some two_path_schema \<rparr>) FASTAPI_SERVICE_URL
      = Inr two_path_schema"
proof -
  note t = fetch_openapi_schema_success[of "\<lambda>url. RequestError ''refused''"
      FASTAPI_SERVICE_URL two_path_schema "''refused''"
      "CannotConnect FASTAPI_SERVICE_URL ''refused''" "\<lambda>app. True"]
  have f: "fetch_openapi_schema (\<lambda>url. RequestError ''refused'') FASTAPI_SERVICE_URL
      = Inl (CannotConnect FASTAPI_SERVICE_URL ''refused'')"
    using t by blast
  have s: "setup_mcp_server (\<lambda>url. RequestError ''refused'') (\<lambda>app. True) = None"
    using t f by blast
  have g: "fetch_openapi_schema
        (\<lambda>url. Responded \<lparr> resp_status_code = 200, resp_headers = [], resp_text = [],
                            resp_decoded = Some two_path_schema \<rparr>) FASTAPI_SERVICE_URL
      = Inr two_path_schema"
    using fetch_openapi_schema_success[of
        "\<lambda>url. Responded \<lparr> resp_status_code = 200, resp_headers = [], resp_text = [],
                            resp_decoded = Some two_path_schema \<rparr>"
        FASTAPI_SERVICE_URL two_path_schema "''refused''"
        "CannotConnect FASTAPI_SERVICE_URL ''refused''" "\<lambda>app. True"]
    by simp
  from f s g show ?thesis by blast
qed

theorem fetch_openapi_schema_accepts_201_counterexample:
  "fetch_openapi_schema
     (\<lambda>url. Responded \<lparr> resp_status_code = 201, resp_headers = [], resp_text = [],
                         resp_decoded = Some two_path_schema \<rparr>) FASTAPI_SERVICE_URL
     = Inr two_path_schema
   \<and> setup_mcp_server
     (\<lambda>url. Responded \<lparr> resp_status_code = 201, resp_headers = [], resp_text = [],
                         resp_decoded = Some two_path_schema \<rparr>) (\<lambda>app. True)
     = Some (fst (create_proxy_routes [] two_path_schema FASTAPI_SERVICE_URL))"
  by (simp add: fetch_openapi_schema_def is_success_def setup_mcp_server_def split: prod.splits)

end
